theory Spec2Isabelle
  imports Main "HOL-Library.Word" "HOL-Library.Signed_Division"
begin

unbundle bit_operations_syntax

section \<open>Durations and errors\<close>

text \<open>
  Go's \<open>time.Duration\<close> is an \<open>int64\<close> count of nanoseconds. It is a 64-bit word here;
  comparisons of the source are signed, so they are written on \<^const>\<open>sint\<close>. Go's \<open>int\<close>
  (worker ids, retry counts, limits) is an \<^typ>\<open>int\<close>; where the source converts it to an
  unsigned machine integer the wrap-around is written out. The atomic \<open>uint32\<close> counters of
  the processor are 32-bit words.
\<close>

type_synonym duration = "64 word"

definition Millisecond :: duration where "Millisecond = 1000000"
definition Second :: duration where "Second = 1000000000"
definition Minute :: duration where "Minute = 60000000000"
definition Hour :: duration where "Hour = 3600000000000"

definition consumerBackoff :: duration where "consumerBackoff = Second"
definition maxBackoff :: duration where "maxBackoff = 12 * Hour"
definition stopTimeout :: duration where "stopTimeout = 30 * Second"

text \<open>Signed comparison of two durations, Go's \<open>a > b\<close> on \<open>int64\<close>.\<close>

definition dur_gt :: "duration \<Rightarrow> duration \<Rightarrow> bool" where
  "dur_gt a b \<longleftrightarrow> sint b < sint a"

text \<open>Go's \<open>a / b\<close> on \<open>int64\<close>: the quotient truncated towards zero, wrapped to 64 bits.\<close>

definition dur_div :: "duration \<Rightarrow> duration \<Rightarrow> duration" where
  "dur_div a b = word_of_int (sint a sdiv sint b)"

text \<open>
  An \<open>error\<close> value of the source. \<open>ErrNotSupported\<close> is the sentinel of the internal
  package, compared by identity. \<open>DelayerError\<close> is an error whose dynamic type has the
  method \<open>Delay()\<close> of the interface \<open>Delayer\<close>; its argument is what \<open>Delay()\<close> returns.
  \<open>ErrWorkersDidNotStop d\<close> is \<open>fmt.Errorf("workers did not stop after %s", d)\<close> and
  \<open>ErrQueueEmpty\<close> is \<open>errors.New("msgqueue: queue is empty")\<close>.
\<close>

datatype error =
    ErrNotSupported
  | PlainError string
  | DelayerError string duration
  | ErrWorkersDidNotStop duration
  | ErrQueueEmpty

section \<open>Exponential backoff\<close>

text \<open>
  \<open>dur <<= uint(retry - 1)\<close>: the shift count is \<open>retry - 1\<close> converted to a 64-bit unsigned
  integer, and a left shift of an \<open>int64\<close> drops the bits that leave the word (a count of 64
  or more leaves 0, which \<^const>\<open>push_bit\<close> on words does as well).
\<close>

definition exponentialBackoff :: "duration \<Rightarrow> int \<Rightarrow> duration" where
  "exponentialBackoff dur retry =
     (let dur1 = push_bit (nat ((retry - 1) mod 2 ^ 64)) dur
      in if dur_gt dur1 maxBackoff then maxBackoff else dur1)"

section \<open>Messages, options and the processor\<close>

text \<open>
  The fields of \<open>msgqueue.Message\<close> and \<open>msgqueue.Options\<close> that the processor reads. The
  handlers are the replies of the user's code to a message: \<open>None\<close> is a nil error.
\<close>

record Message =
  Id :: string
  Delay :: duration
  ReservedCount :: int

record Options =
  WorkerNumber :: int
  BufferSize :: int
  MaxWorkers :: int
  RetryLimit :: int
  MinBackoff :: duration

text \<open>What the processor says to its collaborators, in the order it says it.\<close>

datatype wait_outcome = Woken | TimedOut

datatype event =
    EvLock nat bool
  | EvWait nat duration wait_outcome
  | EvUnlock nat
  | EvPublish string string
  | EvHandle Message
  | EvFallback Message
  | EvRelease Message duration
  | EvBatchAdd Message
  | EvBatchWait
  | EvGoWorker int
  | EvGoFetcher
  | EvWorkersWait
  | EvSleep duration
  | LogLockFailed error
  | LogUnlockFailed error
  | LogPublishFailed error
  | LogRetry duration error
  | LogReleaseFailed error
  | LogHandlerFailed error
  | LogFallbackFailed error

text \<open>The channel \<open>stopWorkers\<close>: nil until \<open>startWorkers\<close> makes it, then open, then closed.\<close>

datatype chan_state = ChanNil | ChanOpen | ChanClosed

text \<open>
  The struct \<open>Processor\<close>. \<open>ch\<close> is the internal channel, oldest message first; \<open>wg\<close> and
  \<open>workersWG\<close> are the counters of the two wait groups; \<open>workerChans\<close> holds the wake
  channel of every slot (a channel is named by the slot it was made for; its tokens come
  from another goroutine), \<open>workerLocks\<close> the key of every slot's shared lock. \<open>trace\<close>
  is not a field of the source: it records the calls made to the queue, the lock service,
  the handlers, the batcher and the logger. The field \<open>avgDuration\<close> is left out: it is
  computed in floating point from wall-clock time.
\<close>

record Processor =
  qName :: string
  opt :: Options
  handler :: "Message \<Rightarrow> error option"
  fallbackHandler :: "(Message \<Rightarrow> error option) option"
  wg :: int
  ch :: "Message list"
  workersWG :: int
  stopWorkers :: chan_state
  workerChans :: "nat list"
  workerLocks :: "string list"
  started :: "32 word"
  errCount :: "32 word"
  delayCount :: "32 word"
  delaySec :: "32 word"
  inFlight :: "32 word"
  deleting :: "32 word"
  processed :: "32 word"
  fails :: "32 word"
  retries :: "32 word"
  trace :: "event list"

definition emit :: "event \<Rightarrow> Processor \<Rightarrow> Processor" where
  "emit e p = p\<lparr>trace := trace p @ [e]\<rparr>"

section \<open>Release delay\<close>

text \<open>
  \<open>releaseBackoff\<close> returns the delay and the processor with the pause counters it stored.
  \<open>uint32(delay / time.Second)\<close> keeps the low 32 bits of the quotient.
\<close>

definition releaseBackoff :: "Processor \<Rightarrow> Message \<Rightarrow> error option \<Rightarrow> duration \<times> Processor" where
  "releaseBackoff p msg reason =
     (case reason of
        Some (DelayerError s delay) \<Rightarrow>
          (if dur_gt delay Minute
           then (delay, p\<lparr>delaySec := ucast (dur_div delay Second),
                           delayCount := delayCount p + 1\<rparr>)
           else (delay, p))
      | _ \<Rightarrow>
          (if dur_gt (Delay msg) 0 then (Delay msg, p)
           else (exponentialBackoff (MinBackoff (opt p)) (ReservedCount msg), p)))"

section \<open>Construction\<close>

text \<open>\<open>strconv.Itoa\<close> and the \<open>%d\<close> of \<open>fmt.Sprintf\<close>: the decimal digits of an integer.\<close>

fun digits :: "nat \<Rightarrow> string" where
  "digits n =
     (if n < 10 then [char_of (48 + n)]
      else digits (n div 10) @ [char_of (48 + n mod 10)])"

declare digits.simps [simp del]

definition Itoa :: "int \<Rightarrow> string" where
  "Itoa i = (if i < 0 then CHR ''-'' # digits (nat (- i)) else digits (nat i))"

text \<open>
  \<open>New\<close>, after \<open>opt.Init()\<close> (which is not part of the sources at hand; the options are
  taken as it leaves them). With \<open>MaxWorkers > 0\<close> it makes one wake channel and one lock
  per slot \<open>0 \<le> i < MaxWorkers\<close>; otherwise both slices stay nil, which is the empty list.
\<close>

definition New ::
  "string \<Rightarrow> Options \<Rightarrow> (Message \<Rightarrow> error option) \<Rightarrow> (Message \<Rightarrow> error option) option
     \<Rightarrow> Processor" where
  "New name opts h fb =
     \<lparr>qName = name, opt = opts, handler = h, fallbackHandler = fb,
      wg = 0, ch = [], workersWG = 0, stopWorkers = ChanNil,
      workerChans = (if 0 < MaxWorkers opts then [0..<nat (MaxWorkers opts)] else []),
      workerLocks =
        (if 0 < MaxWorkers opts
         then map (\<lambda>i. name @ '':worker-lock:'' @ Itoa (int i)) [0..<nat (MaxWorkers opts)]
         else []),
      started = 0, errCount = 0, delayCount = 0, delaySec = 0, inFlight = 0, deleting = 0,
      processed = 0, fails = 0, retries = 0, trace = []\<rparr>"

section \<open>The slot coordinator\<close>

text \<open>
  A run-time panic of the source: an index outside a slice, or closing a channel that is
  nil or already closed.
\<close>

datatype panic = IndexOutOfRange int nat | CloseOfNilChannel | CloseOfClosedChannel

text \<open>
  What the lock service and the wake channel answer to one round of the loop in
  \<open>lockWorker\<close>: \<open>lock.Lock()\<close> returns an error, or \<open>ok = true\<close>, or \<open>ok = false\<close>; in the last
  case the \<open>select\<close> that follows ends with a wake token or with the timer.
\<close>

datatype lock_reply = LockFailed error | LockAcquired | LockBusy wait_outcome

text \<open>The answers of the collaborators during one call of \<open>process\<close>.\<close>

record Env =
  lockReplies :: "lock_reply list"
  unlockReply :: "error option"
  publishReply :: "error option"
  releaseReply :: "error option"

definition lockTimeout :: duration where "lockTimeout = 1234 * Millisecond"

text \<open>
  The \<open>for\<close> loop of \<open>lockWorker\<close>. It has no bound of its own: it runs for as long as the
  lock is reported busy. The list of replies is what the environment answers, in order; when
  the loop has used all of them and is still polling, the result is \<open>None\<close>.
\<close>

fun lockWorker_loop :: "nat \<Rightarrow> lock_reply list \<Rightarrow> Processor \<Rightarrow> Processor option" where
  "lockWorker_loop i [] p = None"
| "lockWorker_loop i (LockFailed e # rs) p =
     Some (emit (LogLockFailed e) (emit (EvLock i False) p))"
| "lockWorker_loop i (LockAcquired # rs) p = Some (emit (EvLock i True) p)"
| "lockWorker_loop i (LockBusy w # rs) p =
     lockWorker_loop i rs (emit (EvWait i lockTimeout w) (emit (EvLock i False) p))"

definition lockWorker :: "int \<Rightarrow> lock_reply list \<Rightarrow> Processor \<Rightarrow> (panic + Processor) option" where
  "lockWorker wid rs p =
     (if wid < 0 \<or> int (length (workerChans p)) \<le> wid
      then Some (Inl (IndexOutOfRange wid (length (workerChans p))))
      else if int (length (workerLocks p)) \<le> wid
      then Some (Inl (IndexOutOfRange wid (length (workerLocks p))))
      else map_option Inr (lockWorker_loop (nat wid) rs p))"

definition redisWorkerFreeChannel :: "Processor \<Rightarrow> string" where
  "redisWorkerFreeChannel p = qName p @ '':'' @ ''worker-free''"

definition unlockWorker :: "int \<Rightarrow> Env \<Rightarrow> Processor \<Rightarrow> panic + Processor" where
  "unlockWorker wid env p =
     (if wid < 0 \<or> int (length (workerLocks p)) \<le> wid
      then Inl (IndexOutOfRange wid (length (workerLocks p)))
      else
        let p1 = emit (EvUnlock (nat wid)) p;
            p2 = (case unlockReply env of Some e \<Rightarrow> emit (LogUnlockFailed e) p1 | None \<Rightarrow> p1);
            p3 = emit (EvPublish (redisWorkerFreeChannel p2) (Itoa wid)) p2
        in Inr (case publishReply env of Some e \<Rightarrow> emit (LogPublishFailed e) p3 | None \<Rightarrow> p3))"

section \<open>Processing one message\<close>

definition resetPause :: "Processor \<Rightarrow> Processor" where
  "resetPause p = p\<lparr>errCount := 0, delayCount := 0\<rparr>"

text \<open>\<open>atomic.AddUint32(&p.inFlight, ^uint32(0))\<close> adds the all-ones word, which takes one off.\<close>

definition release :: "Env \<Rightarrow> Processor \<Rightarrow> Message \<Rightarrow> error option \<Rightarrow> Processor" where
  "release env p msg reason =
     (let delay = fst (releaseBackoff p msg reason);
          p1 = snd (releaseBackoff p msg reason);
          p2 = (case reason of Some e \<Rightarrow> emit (LogRetry delay e) p1 | None \<Rightarrow> p1);
          p3 = emit (EvRelease msg delay) p2;
          p4 = (case releaseReply env of Some e \<Rightarrow> emit (LogReleaseFailed e) p3 | None \<Rightarrow> p3)
      in p4\<lparr>inFlight := inFlight p4 + NOT 0, wg := wg p4 - 1\<rparr>)"

definition delete_msg :: "Processor \<Rightarrow> Message \<Rightarrow> error option \<Rightarrow> Processor" where
  "delete_msg p msg reason =
     (let p1 =
        (case reason of
           None \<Rightarrow> resetPause p
         | Some e \<Rightarrow>
             (let q = emit (LogHandlerFailed e) p
              in case fallbackHandler q of
                   None \<Rightarrow> q
                 | Some fb \<Rightarrow>
                     (case fb msg of
                        Some e' \<Rightarrow> emit (LogFallbackFailed e') (emit (EvFallback msg) q)
                      | None \<Rightarrow> emit (EvFallback msg) q)))
      in emit (EvBatchAdd msg) (p1\<lparr>inFlight := inFlight p1 + NOT 0, deleting := deleting p1 + 1\<rparr>))"

text \<open>
  The end of \<open>process\<close>, from \<open>if err == nil\<close> on: what is done with the message once the
  handler has answered \<open>err\<close>.
\<close>

definition settle :: "Env \<Rightarrow> Processor \<Rightarrow> Message \<Rightarrow> error option \<Rightarrow> error option \<times> Processor" where
  "settle env p msg err =
     (case err of
        None \<Rightarrow> (None, delete_msg (p\<lparr>processed := processed p + 1\<rparr>) msg None)
      | Some e \<Rightarrow>
          (if ReservedCount msg < RetryLimit (opt p)
           then (Some e, release env (p\<lparr>retries := retries p + 1\<rparr>) msg (Some e))
           else (Some e, delete_msg (p\<lparr>fails := fails p + 1\<rparr>) msg (Some e))))"

text \<open>
  \<open>process\<close>. The result is \<open>None\<close> while \<open>lockWorker\<close> is still polling, a panic, or the
  error returned together with the processor. \<open>updateAvgDuration\<close>, which follows the
  handler, only writes the field \<open>avgDuration\<close> that is left out.
\<close>

definition process ::
  "Env \<Rightarrow> int \<Rightarrow> Message \<Rightarrow> Processor \<Rightarrow> (panic + error option \<times> Processor) option" where
  "process env workerId msg p =
     (if dur_gt (Delay msg) 0 then Some (Inr (None, release env p msg None))
      else
        case (if 0 \<le> workerId \<and> 0 < MaxWorkers (opt p)
              then lockWorker workerId (lockReplies env) p else Some (Inr p)) of
          None \<Rightarrow> None
        | Some (Inl pn) \<Rightarrow> Some (Inl pn)
        | Some (Inr p1) \<Rightarrow>
            (let p2 = emit (EvHandle msg) p1;
                 err = handler p2 msg
             in case (if 0 \<le> workerId \<and> 0 < MaxWorkers (opt p2)
                      then unlockWorker workerId env p2 else Inr p2) of
                  Inl pn \<Rightarrow> Some (Inl pn)
                | Inr p3 \<Rightarrow> Some (Inr (settle env p3 msg err))))"

section \<open>Start and stop\<close>

text \<open>
  \<open>atomic.CompareAndSwapUint32(&p._started, 0, 1)\<close> succeeds exactly when the flag is 0.
  The goroutines launched are recorded in the trace, one \<open>EvGoWorker i\<close> for every
  \<open>0 \<le> i < WorkerNumber\<close>.
\<close>

definition startWorkers :: "Processor \<Rightarrow> bool \<times> Processor" where
  "startWorkers p =
     (if started p \<noteq> 0 then (False, p)
      else
        (True,
         p\<lparr>started := 1,
           stopWorkers := ChanOpen,
           workersWG := workersWG p + WorkerNumber (opt p),
           trace := trace p @ map (\<lambda>i. EvGoWorker (int i)) [0..<nat (WorkerNumber (opt p))]\<rparr>))"

definition Start :: "Processor \<Rightarrow> error option \<times> Processor" where
  "Start p =
     (if \<not> fst (startWorkers p) then (None, snd (startWorkers p))
      else
        (let p1 = snd (startWorkers p)
         in (None, emit EvGoFetcher (p1\<lparr>workersWG := workersWG p1 + 1\<rparr>))))"

text \<open>
  \<open>stopWorkersTimeout\<close>. The goroutine started here closes \<open>done\<close> when \<open>p.wg.Wait()\<close>
  returns. With the counter of \<open>wg\<close> at 0 that is at once, and the \<open>select\<close> takes the
  \<open>done\<close> case. With work in flight the other goroutines decide whether the counter
  reaches 0 before the timer fires: this is the argument \<open>drained\<close>. On the \<open>done\<close> case
  the counter is 0, so every message added has been taken from the channel and settled
  (the counters that the workers moved meanwhile are those of \<open>process\<close> and are not
  replayed here), and \<open>workersWG.Wait()\<close> returns once every worker and the fetcher have
  left, which is when that counter is back at 0.
\<close>

definition stopWorkersTimeout ::
  "bool \<Rightarrow> duration \<Rightarrow> Processor \<Rightarrow> panic + error option \<times> Processor" where
  "stopWorkersTimeout drained timeout p =
     (if started p \<noteq> 1 then Inr (None, p)
      else
        (let p1 = p\<lparr>started := 0\<rparr>
         in if wg p1 \<noteq> 0 \<and> \<not> drained then Inr (Some (ErrWorkersDidNotStop timeout), p1)
            else
              (case stopWorkers p1 of
                 ChanNil \<Rightarrow> Inl CloseOfNilChannel
               | ChanClosed \<Rightarrow> Inl CloseOfClosedChannel
               | ChanOpen \<Rightarrow>
                   Inr (None,
                        emit EvBatchWait
                          (emit EvWorkersWait
                             (p1\<lparr>wg := 0, ch := [], stopWorkers := ChanClosed,
                                 workersWG := 0\<rparr>))))))"

definition Stop :: "bool \<Rightarrow> Processor \<Rightarrow> panic + error option \<times> Processor" where
  "Stop drained p = stopWorkersTimeout drained stopTimeout p"

definition StopTimeout :: "bool \<Rightarrow> duration \<Rightarrow> Processor \<Rightarrow> panic + error option \<times> Processor" where
  "StopTimeout drained timeout p = stopWorkersTimeout drained timeout p"

definition stopped :: "Processor \<Rightarrow> bool" where
  "stopped p \<longleftrightarrow> started p = 0"

section \<open>Fetching and ProcessAll\<close>

definition Add :: "Message \<Rightarrow> Processor \<Rightarrow> Processor" where
  "Add msg p = p\<lparr>wg := wg p + 1, inFlight := inFlight p + 1, ch := ch p @ [msg]\<rparr>"

text \<open>
  \<open>dequeueMessage\<close>, the step with which a worker takes its next message. With a message
  in the channel it returns it (also after \<open>stopWorkers\<close> was closed: the inner \<open>select\<close>
  drains the channel first). With the channel empty it returns \<open>ok = false\<close> once
  \<open>stopWorkers\<close> is closed and blocks otherwise, which is the result \<open>None\<close>.
\<close>

definition dequeueMessage :: "Processor \<Rightarrow> (Message option \<times> Processor) option" where
  "dequeueMessage p =
     (case ch p of
        m # ms \<Rightarrow> Some (Some m, p\<lparr>ch := ms\<rparr>)
      | [] \<Rightarrow> (if stopWorkers p = ChanClosed then Some (None, p) else None))"






section \<open>The configuration roulette\<close>

text \<open>
  \<open>consumerConfig\<close> with its two \<open>int32\<close> sizes and the selection count. The embedded
  \<open>perfProfile\<close> and the score are floating-point and wall-clock values that the roulette
  does not read; they are left out.
\<close>

record consumerConfig =
  NumFetcher :: "32 word"
  NumWorker :: "32 word"
  NumSelected :: int

text \<open>
  Modelled from the spec: the struct \<open>QueueOptions\<close> is not declared in the sources at hand.
  The roulette reads \<open>MaxNumFetcher\<close>; the other three bounds are the \<open>min_workers\<close>,
  \<open>max_workers\<close> and \<open>min_fetchers\<close> that the spec lists as "bounds for the roulette".
\<close>

record QueueOptions =
  MinNumWorker :: "32 word"
  MaxNumWorker :: "32 word"
  MinNumFetcher :: "32 word"
  MaxNumFetcher :: "32 word"

record configRoulette =
  ropt :: QueueOptions
  currCfg :: consumerConfig

text \<open>
  \<open>hasFreeSystemResources()\<close> is not defined in the sources at hand. What it answers is an
  argument, one for each of the two calls.
\<close>

definition withMoreWorkers :: "bool \<Rightarrow> 32 word \<Rightarrow> bool \<Rightarrow> configRoulette \<Rightarrow> configRoulette" where
  "withMoreWorkers hasFreeSystemResources n queueEmpty r =
     (if \<not> hasFreeSystemResources then r
      else if queueEmpty then r
      else r\<lparr>currCfg := (currCfg r)\<lparr>NumWorker := NumWorker (currCfg r) + n\<rparr>\<rparr>)"

definition withMoreFetchers :: "bool \<Rightarrow> configRoulette \<Rightarrow> configRoulette" where
  "withMoreFetchers hasFreeSystemResources r =
     (if \<not> hasFreeSystemResources then r
      else if sint (MaxNumFetcher (ropt r)) \<le> sint (NumFetcher (currCfg r)) then r
      else r\<lparr>currCfg := (currCfg r)\<lparr>NumFetcher := NumFetcher (currCfg r) + 1\<rparr>\<rparr>)"

definition incrementConfig :: "bool \<Rightarrow> bool \<Rightarrow> bool \<Rightarrow> configRoulette \<Rightarrow> configRoulette" where
  "incrementConfig free1 free2 queueEmpty r =
     withMoreFetchers free2 (withMoreWorkers free1 5 queueEmpty r)"

text \<open>\<open>Select\<close> returns the configuration and leaves it in the roulette.\<close>

definition Select ::
  "bool \<Rightarrow> bool \<Rightarrow> configRoulette \<Rightarrow> consumerConfig \<Rightarrow> bool \<Rightarrow> consumerConfig \<times> configRoulette" where
  "Select free1 free2 r cfg queueEmpty =
     (let r1 = incrementConfig free1 free2 queueEmpty (r\<lparr>currCfg := cfg\<rparr>)
      in (currCfg r1, r1))"

text \<open>A configuration is within the bounds of the options, read as signed 32-bit numbers.\<close>

definition fetcher_in_bounds :: "QueueOptions \<Rightarrow> consumerConfig \<Rightarrow> bool" where
  "fetcher_in_bounds qo cfg \<longleftrightarrow>
     sint (MinNumFetcher qo) \<le> sint (NumFetcher cfg) \<and> sint (NumFetcher cfg) \<le> sint (MaxNumFetcher qo)"

definition worker_in_bounds :: "QueueOptions \<Rightarrow> consumerConfig \<Rightarrow> bool" where
  "worker_in_bounds qo cfg \<longleftrightarrow>
     sint (MinNumWorker qo) \<le> sint (NumWorker cfg) \<and> sint (NumWorker cfg) \<le> sint (MaxNumWorker qo)"

section \<open>Reading the trace\<close>

text \<open>The slot that an event of the slot coordinator is about.\<close>

fun slot_of :: "event \<Rightarrow> nat option" where
  "slot_of (EvLock i ok) = Some i"
| "slot_of (EvWait i d w) = Some i"
| "slot_of (EvUnlock i) = Some i"
| "slot_of e = None"

fun is_release :: "event \<Rightarrow> bool" where
  "is_release (EvRelease m d) = True"
| "is_release e = False"

fun is_delete :: "event \<Rightarrow> bool" where
  "is_delete (EvBatchAdd m) = True"
| "is_delete e = False"

fun is_lock :: "event \<Rightarrow> bool" where
  "is_lock (EvLock i ok) = True"
| "is_lock e = False"

fun is_unlock :: "event \<Rightarrow> bool" where
  "is_unlock (EvUnlock i) = True"
| "is_unlock e = False"

fun is_busy :: "lock_reply \<Rightarrow> bool" where
  "is_busy (LockBusy w) = True"
| "is_busy r = False"

text \<open>The events that the loop of \<open>lockWorker\<close> leaves for a list of replies.\<close>

fun lock_events :: "nat \<Rightarrow> lock_reply list \<Rightarrow> event list" where
  "lock_events i [] = []"
| "lock_events i (LockFailed e # rs) = [EvLock i False, LogLockFailed e]"
| "lock_events i (LockAcquired # rs) = [EvLock i True]"
| "lock_events i (LockBusy w # rs) = EvLock i False # EvWait i lockTimeout w # lock_events i rs"

text \<open>
  Whether slot \<open>i\<close> is held at the end of a trace: the last answer of the lock service for
  the slot was \<open>ok = true\<close> and no unlock came after it.
\<close>

definition slot_held :: "nat \<Rightarrow> event list \<Rightarrow> bool" where
  "slot_held i tr =
     foldl (\<lambda>h e. if e = EvLock i True then True
                   else if e = EvLock i False \<or> e = EvUnlock i then False else h) False tr"

text \<open>The events added to the trace between two states of the processor.\<close>

definition new_events :: "Processor \<Rightarrow> Processor \<Rightarrow> event list" where
  "new_events p p' = drop (length (trace p)) (trace p')"

text \<open>The slices made by \<open>New\<close> have one entry per slot.\<close>

definition slots_ok :: "Processor \<Rightarrow> bool" where
  "slots_ok p \<longleftrightarrow>
     length (workerChans p) = nat (MaxWorkers (opt p)) \<and>
     length (workerLocks p) = nat (MaxWorkers (opt p))"


section \<open>Example values\<close>

definition example_opt :: Options where
  "example_opt =
     \<lparr>WorkerNumber = 3, BufferSize = 4, MaxWorkers = 2, RetryLimit = 3, MinBackoff = Millisecond\<rparr>"

definition example_msg :: Message where
  "example_msg = \<lparr>Id = ''m1'', Delay = 0, ReservedCount = 1\<rparr>"

definition failing_handler :: "Message \<Rightarrow> error option" where
  "failing_handler m = Some (PlainError ''boom'')"

definition example_proc :: Processor where
  "example_proc = New ''q'' example_opt failing_handler None"

text \<open>
  The example processor after \<open>Start\<close> and \<open>Add example_msg\<close>, with one message in flight,
  and the same after a worker has taken that message from the channel.
\<close>

definition example_running :: Processor where
  "example_running = Add example_msg (snd (Start example_proc))"

definition example_working :: Processor where
  "example_working = example_running\<lparr>ch := []\<rparr>"

definition example_env :: Env where
  "example_env =
     \<lparr>lockReplies = [LockBusy TimedOut, LockAcquired], unlockReply = None,
      publishReply = None, releaseReply = None\<rparr>"

text \<open>The same with \<open>RetryLimit = 0\<close>.\<close>

definition example_opt0 :: Options where
  "example_opt0 = example_opt\<lparr>RetryLimit := 0\<rparr>"

definition example_working0 :: Processor where
  "example_working0 =
     (Add example_msg (snd (Start (New ''q'' example_opt0 failing_handler None))))\<lparr>ch := []\<rparr>"

text \<open>
  The processor after worker 1 has processed the message of the example, with the lock
  busy at the first attempt and granted at the second.
\<close>

definition example_after :: Processor where
  "example_after =
     (case process example_env 1 example_msg example_working of
        Some (Inr (r, p')) \<Rightarrow> p' | _ \<Rightarrow> example_working)"

definition example_after0 :: Processor where
  "example_after0 =
     (case process example_env 1 example_msg example_working0 of
        Some (Inr (r, p')) \<Rightarrow> p' | _ \<Rightarrow> example_working0)"

text \<open>An error of the lock service.\<close>

definition lock_down :: error where
  "lock_down = PlainError ''redis: connection refused''"



definition example_qopt :: QueueOptions where
  "example_qopt = \<lparr>MinNumWorker = 1, MaxNumWorker = 10, MinNumFetcher = 1, MaxNumFetcher = 4\<rparr>"

definition example_cfg :: consumerConfig where
  "example_cfg = \<lparr>NumFetcher = 1, NumWorker = 10, NumSelected = 0\<rparr>"

definition example_roulette :: configRoulette where
  "example_roulette = \<lparr>ropt = example_qopt, currCfg = \<lparr>NumFetcher = 1, NumWorker = 1, NumSelected = 0\<rparr>\<rparr>"

section \<open>Exponential backoff: results\<close>

lemma sint_push_bit_no_overflow:
  fixes w :: "64 word"
  assumes "- (2 ^ 63) \<le> sint w * 2 ^ n" "sint w * 2 ^ n < 2 ^ 63"
  shows "sint (push_bit n w) = sint w * 2 ^ n"
proof -
  have "sint (push_bit n w) = signed_take_bit 63 (push_bit n (sint w))"
    by (simp add: signed_push_bit_eq)
  also have "push_bit n (sint w) = sint w * 2 ^ n"
    by (rule push_bit_eq_mult)
  also have "signed_take_bit 63 (sint w * 2 ^ n) = sint w * 2 ^ n"
    using assms by (simp add: signed_take_bit_int_eq_self)
  finally show ?thesis .
qed

lemma sint_maxBackoff: "sint maxBackoff = 43200000000000"
  by (simp add: maxBackoff_def Hour_def)

text \<open>The clamp itself never fails: no result is above 12 hours.\<close>

lemma exponentialBackoff_le_max: "sint (exponentialBackoff dur retry) \<le> sint maxBackoff"
  by (simp add: exponentialBackoff_def dur_gt_def Let_def)

text \<open>
  As long as \<open>min * 2 ^ (retry - 1)\<close> fits into an \<open>int64\<close>, the result is that product
  clamped to 12 hours.
\<close>

lemma exponentialBackoff_no_overflow:
  assumes "1 \<le> retry" and "retry < 2 ^ 63"
    and "- (2 ^ 63) \<le> sint m * 2 ^ nat (retry - 1)"
    and "sint m * 2 ^ nat (retry - 1) < 2 ^ 63"
  shows "sint (exponentialBackoff m retry) = min (sint m * 2 ^ nat (retry - 1)) (sint maxBackoff)"
proof -
  have n: "(retry - 1) mod 2 ^ 64 = retry - 1"
    using assms(1,2) by simp
  have e: "exponentialBackoff m retry =
      (let dur1 = push_bit (nat (retry - 1)) m in if dur_gt dur1 maxBackoff then maxBackoff else dur1)"
    unfolding exponentialBackoff_def n ..
  from sint_push_bit_no_overflow [OF assms(3,4)]
  show ?thesis
    by (simp add: e Let_def dur_gt_def min_def)
qed

text \<open>
  C8. The claim reads: for every \<open>min\<close> and every \<open>retry \<ge> 1\<close> the result is
  \<open>min * 2 ^ (retry - 1)\<close> when that is at most 12 hours and 12 hours otherwise. The shift
  is done in 64 bits before the comparison, so a product that leaves the \<open>int64\<close> range is
  compared after it has wrapped around. With \<open>min\<close> one second and \<open>retry = 35\<close> the product
  is far above 12 hours, and the function returns a negative duration instead of 12 hours.
\<close>

theorem exponentialBackoff_overflow:
  "sint maxBackoff < sint Second * 2 ^ nat (35 - 1) \<and>
   sint (exponentialBackoff Second 35) = - 1266874889709551616 \<and>
   exponentialBackoff Second 35 \<noteq> maxBackoff"
  by (simp add: exponentialBackoff_def Second_def dur_gt_def maxBackoff_def Hour_def
      push_bit_eq_mult)

text \<open>With \<open>min\<close> one millisecond the 64th retry is released with no delay at all.\<close>

lemma exponentialBackoff_overflow_zero: "exponentialBackoff Millisecond 64 = 0"
  by (simp add: exponentialBackoff_def Millisecond_def dur_gt_def maxBackoff_def Hour_def
      push_bit_eq_mult)

section \<open>Start and stop: results\<close>

lemma started_example_proc: "started example_proc = 0"
  by (simp add: example_proc_def New_def)

lemma Start_example_proc:
  "Start example_proc =
     (None, example_proc\<lparr>started := 1, stopWorkers := ChanOpen, workersWG := 4,
               trace := [EvGoWorker 0, EvGoWorker 1, EvGoWorker 2, EvGoFetcher]\<rparr>)"
  by (simp add: Start_def startWorkers_def example_proc_def New_def example_opt_def emit_def
      Let_def upt_rec)

text \<open>
  C9. \<open>Start\<close> on a started processor returns nil and leaves the processor as it is: no
  worker and no fetcher is launched, since the launches would show in the trace. \<open>Stop\<close>
  and \<open>StopTimeout\<close> on a stopped processor return nil and leave it as it is. So a second
  \<open>Start\<close> after any \<open>Start\<close>, and a second \<open>Stop\<close> or \<open>StopTimeout\<close> after any that
  returned, is a no-op.
\<close>

theorem Start_Stop_idempotent:
  "(started p = 1 \<longrightarrow> Start p = (None, p)) \<and>
   (started p = 0 \<longrightarrow> Stop drained p = Inr (None, p) \<and> StopTimeout drained d p = Inr (None, p)) \<and>
   Start (snd (Start p)) = (None, snd (Start p)) \<and>
   (\<forall>r p'. StopTimeout drained d p = Inr (r, p') \<longrightarrow>
       StopTimeout drained' d' p' = Inr (None, p') \<and> Stop drained' p' = Inr (None, p'))"
  by (auto simp: Start_def startWorkers_def Stop_def StopTimeout_def stopWorkersTimeout_def
      emit_def Let_def split: if_splits chan_state.splits)

theorem Start_Stop_idempotent_witness:
  "started (snd (Start example_proc)) = 1 \<and>
   Start (snd (Start example_proc)) = (None, snd (Start example_proc)) \<and>
   started example_proc = 0 \<and>
   Stop True example_proc = Inr (None, example_proc) \<and>
   StopTimeout True Second example_proc = Inr (None, example_proc)"
  using Start_Stop_idempotent [of "snd (Start example_proc)" True Second]
    Start_Stop_idempotent [of example_proc True Second]
  by (simp add: Start_example_proc started_example_proc)

lemma example_proc_fields:
  "wg example_proc = 0" "inFlight example_proc = 0" "ch example_proc = []"
  "trace example_proc = []" "opt example_proc = example_opt"
  "handler example_proc = failing_handler" "fallbackHandler example_proc = None"
  "qName example_proc = ''q''" "retries example_proc = 0" "fails example_proc = 0"
  by (simp_all add: example_proc_def New_def)

lemma example_running_fields:
  "started example_running = 1" "wg example_running = 1" "ch example_running = [example_msg]"
  "stopWorkers example_running = ChanOpen" "inFlight example_running = 1"
  "trace example_running = [EvGoWorker 0, EvGoWorker 1, EvGoWorker 2, EvGoFetcher]"
  by (simp_all add: example_running_def Start_example_proc Add_def example_proc_fields)

lemma dequeueMessage_example:
  "dequeueMessage example_running = Some (Some example_msg, example_working)"
  by (simp add: dequeueMessage_def example_working_def example_running_fields)

text \<open>
  C3, as the code has it. When there is work in flight and it does not drain within \<open>d\<close>,
  \<open>StopTimeout d\<close> on a started processor returns the error that names \<open>d\<close> and does not
  close \<open>stopWorkers\<close>, so the workers keep running. The flag \<open>_started\<close> has been cleared
  before the wait and is not set again: the processor counts as stopped, and every later
  \<open>Stop\<close> or \<open>StopTimeout\<close> returns nil at once without doing anything.
\<close>

theorem StopTimeout_timeout:
  assumes "started p = 1" and "wg p \<noteq> 0"
  shows "StopTimeout False d p = Inr (Some (ErrWorkersDidNotStop d), p\<lparr>started := 0\<rparr>) \<and>
         stopWorkers (p\<lparr>started := 0\<rparr>) = stopWorkers p \<and>
         trace (p\<lparr>started := 0\<rparr>) = trace p \<and>
         stopped (p\<lparr>started := 0\<rparr>) \<and>
         StopTimeout drained' d' (p\<lparr>started := 0\<rparr>) = Inr (None, p\<lparr>started := 0\<rparr>) \<and>
         Stop drained' (p\<lparr>started := 0\<rparr>) = Inr (None, p\<lparr>started := 0\<rparr>)"
  using assms
  by (simp add: StopTimeout_def Stop_def stopWorkersTimeout_def stopped_def)

theorem StopTimeout_timeout_witness:
  "started example_running = 1 \<and> wg example_running \<noteq> 0 \<and>
   StopTimeout False Second example_running =
     Inr (Some (ErrWorkersDidNotStop Second), example_running\<lparr>started := 0\<rparr>) \<and>
   stopWorkers (example_running\<lparr>started := 0\<rparr>) = ChanOpen \<and>
   StopTimeout True Minute (example_running\<lparr>started := 0\<rparr>) =
     Inr (None, example_running\<lparr>started := 0\<rparr>)"
  using StopTimeout_timeout [of example_running Second True Minute]
  by (simp add: example_running_fields)

text \<open>
  The claim C3 says that after the timeout the processor remains running, so that a later
  retry can still perform the full shutdown. On the example processor with one message in
  flight the first call times out; the retry, during which the work drains, still returns
  nil without closing \<open>stopWorkers\<close> and without waiting for the workers, the fetcher or
  the batcher.
\<close>

theorem StopTimeout_retry_counterexample:
  "started example_running = 1 \<and> wg example_running = 1 \<and>
   StopTimeout False Second example_running =
     Inr (Some (ErrWorkersDidNotStop Second), example_running\<lparr>started := 0\<rparr>) \<and>
   stopped (example_running\<lparr>started := 0\<rparr>) \<and>
   StopTimeout True Second (example_running\<lparr>started := 0\<rparr>) =
     Inr (None, example_running\<lparr>started := 0\<rparr>) \<and>
   stopWorkers (example_running\<lparr>started := 0\<rparr>) = ChanOpen \<and>
   EvWorkersWait \<notin> set (trace (example_running\<lparr>started := 0\<rparr>)) \<and>
   EvBatchWait \<notin> set (trace (example_running\<lparr>started := 0\<rparr>))"
  by (simp add: example_running_fields StopTimeout_def stopWorkersTimeout_def stopped_def)

section \<open>Processing one message: results\<close>

text \<open>What the loop of \<open>lockWorker\<close>, \<open>unlockWorker\<close> and the settling add to the trace.\<close>

lemma lockWorker_loop_trace:
  "lockWorker_loop i rs p = Some p' \<Longrightarrow> p' = p\<lparr>trace := trace p @ lock_events i rs\<rparr>"
proof (induction i rs p rule: lockWorker_loop.induct)
  case (4 i w rs p)
  then show ?case by (simp add: emit_def)
qed (auto simp: emit_def)

lemma lockWorker_loop_returns:
  "\<exists>r\<in>set rs. \<not> is_busy r \<Longrightarrow> \<exists>p'. lockWorker_loop i rs p = Some p'"
proof (induction i rs p rule: lockWorker_loop.induct)
  case (4 i w rs p)
  then show ?case by simp
qed auto

lemma lock_events_props:
  "\<exists>r\<in>set rs. \<not> is_busy r \<Longrightarrow>
     (\<exists>ok. EvLock i ok \<in> set (lock_events i rs)) \<and>
     ((\<forall>e. LockFailed e \<notin> set rs) \<longrightarrow> last (lock_events i rs) = EvLock i True)"
proof (induction i rs rule: lock_events.induct)
  case (4 i w rs)
  then show ?case by auto
qed auto

lemma lock_events_frame:
  "\<forall>e\<in>set (lock_events i rs).
      \<not> is_unlock e \<and> \<not> is_release e \<and> \<not> is_delete e \<and> (slot_of e = None \<or> slot_of e = Some i)"
  by (induction i rs rule: lock_events.induct) auto

lemma release_trace:
  "\<exists>evs. trace (release env q msg reason) = trace q @ evs \<and>
         (\<forall>e\<in>set evs. slot_of e = None \<and> \<not> is_lock e \<and> \<not> is_unlock e)"
  by (cases reason; cases "releaseReply env")
     (simp_all add: release_def emit_def Let_def releaseBackoff_def split: error.splits)

lemma delete_msg_trace:
  "\<exists>evs. trace (delete_msg q msg reason) = trace q @ evs \<and>
         (\<forall>e\<in>set evs. slot_of e = None \<and> \<not> is_lock e \<and> \<not> is_unlock e)"
  by (cases reason; cases "fallbackHandler q")
     (simp_all add: delete_msg_def emit_def Let_def resetPause_def split: option.splits)

lemma settle_trace:
  "\<exists>evs. trace (snd (settle env q msg err)) = trace q @ evs \<and>
         (\<forall>e\<in>set evs. slot_of e = None \<and> \<not> is_lock e \<and> \<not> is_unlock e)"
proof (cases err)
  case None
  then show ?thesis
    using delete_msg_trace [of "q\<lparr>processed := processed q + 1\<rparr>" msg None]
    by (simp add: settle_def)
next
  case (Some e)
  then show ?thesis
    using delete_msg_trace [of "q\<lparr>fails := fails q + 1\<rparr>" msg "Some e"]
      release_trace [of env "q\<lparr>retries := retries q + 1\<rparr>" msg "Some e"]
    by (simp add: settle_def)
qed

lemma unlockWorker_trace:
  assumes "unlockWorker wid env q = Inr q'"
  shows "\<exists>evs. trace q' = trace q @ EvUnlock (nat wid) # evs \<and> q' = q\<lparr>trace := trace q'\<rparr> \<and>
        (\<forall>e\<in>set evs. slot_of e = None \<and> \<not> is_lock e \<and> \<not> is_release e \<and> \<not> is_delete e)"
  using assms
  by (cases "unlockReply env"; cases "publishReply env")
     (auto simp: unlockWorker_def emit_def Let_def split: if_splits)

lemma unlockWorker_returns:
  "0 \<le> wid \<Longrightarrow> wid < int (length (workerLocks q)) \<Longrightarrow> \<exists>q'. unlockWorker wid env q = Inr q'"
  by (simp add: unlockWorker_def Let_def)



lemma process_locked:
  assumes d: "\<not> dur_gt (Delay msg) 0" and g: "0 \<le> wid \<and> 0 < MaxWorkers (opt p)"
    and r: "process env wid msg p = Some (Inr (r, p'))"
  shows "\<exists>evs. (r, p') =
           settle env (p\<lparr>trace := trace p @ lock_events (nat wid) (lockReplies env)
                              @ EvHandle msg # EvUnlock (nat wid) # evs\<rparr>) msg (handler p msg) \<and>
         (\<forall>e\<in>set evs. slot_of e = None \<and> \<not> is_lock e \<and> \<not> is_release e \<and> \<not> is_delete e)"
proof -
  from d g r obtain p1 where l: "lockWorker wid (lockReplies env) p = Some (Inr p1)"
    by (auto simp: process_def split: option.splits sum.splits)
  then have "lockWorker_loop (nat wid) (lockReplies env) p = Some p1"
    by (auto simp: lockWorker_def split: if_splits)
  then have p1: "p1 = p\<lparr>trace := trace p @ lock_events (nat wid) (lockReplies env)\<rparr>"
    by (rule lockWorker_loop_trace)
  define p2 where "p2 = emit (EvHandle msg) p1"
  have p2: "p2 = p\<lparr>trace := trace p @ lock_events (nat wid) (lockReplies env) @ [EvHandle msg]\<rparr>"
    by (simp add: p2_def p1 emit_def)
  have h: "handler p2 msg = handler p msg" and o: "opt p2 = opt p"
    by (simp_all add: p2)
  from d g r l obtain p3 where u: "unlockWorker wid env p2 = Inr p3"
      and res: "(r, p') = settle env p3 msg (handler p msg)"
    by (auto simp: process_def p2_def [symmetric] Let_def h o split: sum.splits)
  from unlockWorker_trace [OF u] obtain evs where
      t3: "trace p3 = trace p2 @ EvUnlock (nat wid) # evs" and p3: "p3 = p2\<lparr>trace := trace p3\<rparr>"
      and evs: "\<forall>e\<in>set evs. slot_of e = None \<and> \<not> is_lock e \<and> \<not> is_release e \<and> \<not> is_delete e"
    by blast
  have "p3 = p\<lparr>trace := trace p @ lock_events (nat wid) (lockReplies env)
                              @ EvHandle msg # EvUnlock (nat wid) # evs\<rparr>"
    by (subst p3) (simp add: t3 p2)
  with res evs show ?thesis by blast
qed

lemma process_returns:
  assumes "slots_ok p" "0 \<le> wid" "wid < MaxWorkers (opt p)" "\<not> dur_gt (Delay msg) 0"
    "\<exists>r\<in>set (lockReplies env). \<not> is_busy r"
  shows "\<exists>r p'. process env wid msg p = Some (Inr (r, p'))"
proof -
  from lockWorker_loop_returns [OF assms(5)] obtain p1 where
    l: "lockWorker_loop (nat wid) (lockReplies env) p = Some p1" by blast
  then have p1: "p1 = p\<lparr>trace := trace p @ lock_events (nat wid) (lockReplies env)\<rparr>"
    by (rule lockWorker_loop_trace)
  have lw: "lockWorker wid (lockReplies env) p = Some (Inr p1)"
    using assms(1-3) l by (simp add: lockWorker_def slots_ok_def)
  have "wid < int (length (workerLocks (emit (EvHandle msg) p1)))"
    using assms(1-3) by (simp add: p1 emit_def slots_ok_def)
  from unlockWorker_returns [OF assms(2) this] obtain p3 where
    "unlockWorker wid env (emit (EvHandle msg) p1) = Inr p3" by blast
  then show ?thesis
    using assms(2-4) lw
    by (cases "settle env p3 msg (handler (emit (EvHandle msg) p1) msg)")
       (simp add: process_def Let_def p1 emit_def)
qed







text \<open>The example processors.\<close>

lemma example_working_fields:
  "opt example_working = example_opt" "handler example_working = failing_handler"
  "fallbackHandler example_working = None" "qName example_working = ''q''"
  "retries example_working = 0" "fails example_working = 0"
  "wg example_working = 1" "inFlight example_working = 1"
  "trace example_working = [EvGoWorker 0, EvGoWorker 1, EvGoWorker 2, EvGoFetcher]"
  "length (workerChans example_working) = 2" "length (workerLocks example_working) = 2"
  by (simp_all add: example_working_def example_running_def Start_example_proc Add_def
      example_proc_fields)
     (simp_all add: example_proc_def New_def example_opt_def)

lemma example_working0_fields:
  "opt example_working0 = example_opt0" "handler example_working0 = failing_handler"
  "fallbackHandler example_working0 = None" "qName example_working0 = ''q''"
  "retries example_working0 = 0" "fails example_working0 = 0"
  "wg example_working0 = 1" "inFlight example_working0 = 1"
  "trace example_working0 = [EvGoWorker 0, EvGoWorker 1, EvGoWorker 2, EvGoFetcher]"
  "length (workerChans example_working0) = 2" "length (workerLocks example_working0) = 2"
  by (simp_all add: example_working0_def Start_def startWorkers_def Add_def New_def emit_def
      Let_def example_opt0_def example_opt_def upt_rec)

lemma example_working_slots: "slots_ok example_working"
  by (simp add: slots_ok_def example_working_fields) (simp add: example_opt_def)


lemma example_env_not_busy: "\<exists>r\<in>set (lockReplies example_env). \<not> is_busy r"
  by (simp add: example_env_def)

lemma example_msg_due: "\<not> dur_gt (Delay example_msg) 0"
  by (simp add: example_msg_def dur_gt_def)




text \<open>The events of the two example runs.\<close>

lemma Itoa_1: "Itoa 1 = ''1''"
  by code_simp

lemma example_exp: "exponentialBackoff Millisecond 1 = 1000000"
  by (simp add: exponentialBackoff_def Millisecond_def dur_gt_def maxBackoff_def Hour_def)

lemma example_after_events:
  "new_events example_working example_after =
     [EvLock 1 False, EvWait 1 lockTimeout TimedOut, EvLock 1 True,
      EvHandle example_msg, EvUnlock 1, EvPublish ''q:worker-free'' ''1'',
      LogRetry 1000000 (PlainError ''boom''), EvRelease example_msg 1000000]"
  by (simp add: example_after_def process_def lockWorker_def unlockWorker_def settle_def
      release_def releaseBackoff_def example_exp example_working_fields example_env_def
      emit_def Let_def dur_gt_def redisWorkerFreeChannel_def Itoa_1
      new_events_def example_msg_def example_opt_def failing_handler_def)

lemma example_after0_events:
  "new_events example_working0 example_after0 =
     [EvLock 1 False, EvWait 1 lockTimeout TimedOut, EvLock 1 True,
      EvHandle example_msg, EvUnlock 1, EvPublish ''q:worker-free'' ''1'',
      LogHandlerFailed (PlainError ''boom''), EvBatchAdd example_msg]"
  by (simp add: example_after0_def process_def lockWorker_def unlockWorker_def settle_def
      delete_msg_def example_working0_fields example_env_def
      emit_def Let_def dur_gt_def redisWorkerFreeChannel_def Itoa_1
      new_events_def example_msg_def example_opt_def example_opt0_def failing_handler_def)




section \<open>The slot coordinator: results\<close>

text \<open>
  C1, as the code has it. \<open>process\<close> hands the worker id itself to \<open>lockWorker\<close> and
  \<open>unlockWorker\<close>; no remainder is taken. For a worker id below \<open>MaxWorkers\<close>, where the
  id is its own remainder, the call returns as soon as the lock service answers anything
  but busy; the lock of slot \<open>worker_id\<close> is asked for before the handler runs and is held
  then unless the service answered with an error; the slot is unlocked after the handler
  has returned; no other slot is touched.
\<close>

theorem process_locks_own_slot:
  assumes ok: "slots_ok p" and w0: "0 \<le> wid" and w1: "wid < MaxWorkers (opt p)"
    and d: "\<not> dur_gt (Delay msg) 0"
    and nb: "\<exists>r\<in>set (lockReplies env). \<not> is_busy r"
  shows "\<exists>r p' pre post.
      process env wid msg p = Some (Inr (r, p')) \<and>
      new_events p p' = pre @ EvHandle msg # post \<and>
      (\<exists>ok. EvLock (nat wid) ok \<in> set pre) \<and>
      ((\<forall>e. LockFailed e \<notin> set (lockReplies env)) \<longrightarrow> last pre = EvLock (nat wid) True) \<and>
      (\<forall>e\<in>set pre. \<not> is_unlock e) \<and>
      hd post = EvUnlock (nat wid) \<and>
      (\<forall>e\<in>set post. \<not> is_lock e) \<and>
      (\<forall>e\<in>set (pre @ post). slot_of e = None \<or> slot_of e = Some (nat wid)) \<and>
      wid mod MaxWorkers (opt p) = wid \<and> nat wid < nat (MaxWorkers (opt p))"
proof -
  from process_returns [OF ok w0 w1 d nb] obtain r p' where
    r: "process env wid msg p = Some (Inr (r, p'))" by blast
  have g: "0 \<le> wid \<and> 0 < MaxWorkers (opt p)" using w0 w1 by simp
  define pre where "pre = lock_events (nat wid) (lockReplies env)"
  from process_locked [OF d g r] obtain evs where
    res: "(r, p') = settle env (p\<lparr>trace := trace p @ pre @ EvHandle msg # EvUnlock (nat wid) # evs\<rparr>)
            msg (handler p msg)"
    and evs: "\<forall>e\<in>set evs. slot_of e = None \<and> \<not> is_lock e \<and> \<not> is_release e \<and> \<not> is_delete e"
    unfolding pre_def by blast
  from settle_trace [of env "p\<lparr>trace := trace p @ pre @ EvHandle msg # EvUnlock (nat wid) # evs\<rparr>"
      msg "handler p msg"] res [symmetric]
  obtain evs2 where t: "trace p' = trace p @ pre @ EvHandle msg # EvUnlock (nat wid) # evs @ evs2"
    and evs2: "\<forall>e\<in>set evs2. slot_of e = None \<and> \<not> is_lock e \<and> \<not> is_unlock e"
    by auto
  define post where "post = EvUnlock (nat wid) # evs @ evs2"
  have n: "new_events p p' = pre @ EvHandle msg # post"
    using t by (simp add: new_events_def post_def)
  have a: "\<exists>ok. EvLock (nat wid) ok \<in> set pre"
    and b: "(\<forall>e. LockFailed e \<notin> set (lockReplies env)) \<longrightarrow> last pre = EvLock (nat wid) True"
    using lock_events_props [OF nb, of "nat wid"] by (simp_all add: pre_def)
  have c: "\<forall>e\<in>set pre. \<not> is_unlock e" and c': "\<forall>e\<in>set pre. slot_of e = None \<or> slot_of e = Some (nat wid)"
    using lock_events_frame [of "nat wid" "lockReplies env"] by (simp_all add: pre_def)
  have e: "hd post = EvUnlock (nat wid)" by (simp add: post_def)
  have f: "\<forall>e\<in>set post. \<not> is_lock e" using evs evs2 by (auto simp: post_def)
  have h: "\<forall>e\<in>set (pre @ post). slot_of e = None \<or> slot_of e = Some (nat wid)"
    using c' evs evs2 by (auto simp: post_def)
  have m: "wid mod MaxWorkers (opt p) = wid \<and> nat wid < nat (MaxWorkers (opt p))"
    using w0 w1 by simp
  from r n a b c e f h m show ?thesis by blast
qed

theorem process_locks_own_slot_witness:
  "slots_ok example_working \<and> (0::int) \<le> 1 \<and> 1 < MaxWorkers (opt example_working) \<and>
   \<not> dur_gt (Delay example_msg) 0 \<and> (\<exists>r\<in>set (lockReplies example_env). \<not> is_busy r) \<and>
   (\<exists>r p' pre post.
      process example_env 1 example_msg example_working = Some (Inr (r, p')) \<and>
      new_events example_working p' = pre @ EvHandle example_msg # post \<and>
      (\<exists>ok. EvLock (nat 1) ok \<in> set pre) \<and>
      ((\<forall>e. LockFailed e \<notin> set (lockReplies example_env)) \<longrightarrow> last pre = EvLock (nat 1) True) \<and>
      (\<forall>e\<in>set pre. \<not> is_unlock e) \<and>
      hd post = EvUnlock (nat 1) \<and>
      (\<forall>e\<in>set post. \<not> is_lock e) \<and>
      (\<forall>e\<in>set (pre @ post). slot_of e = None \<or> slot_of e = Some (nat 1)) \<and>
      1 mod MaxWorkers (opt example_working) = 1 \<and> nat 1 < nat (MaxWorkers (opt example_working)))"
proof -
  have z: "(0::int) \<le> 1" by simp
  have w: "(1::int) < MaxWorkers (opt example_working)"
    by (simp add: example_working_fields example_opt_def)
  from example_working_slots z w example_msg_due example_env_not_busy
    process_locks_own_slot [OF example_working_slots z w example_msg_due example_env_not_busy]
  show ?thesis
    apply -
    apply (intro conjI; assumption)
    done
qed


text \<open>
  The claim C1 says that for every worker id \<open>\<ge> 0\<close> the slot is
  \<open>worker_id % max_workers\<close>, however many workers run. The example processor runs three
  workers on two slots. When worker 2 processes a message, slot \<open>2 % 2 = 0\<close> is not
  locked: the lookup \<open>p.workerChans[2]\<close> is outside the slice and the call panics.
\<close>

theorem process_slot_counterexample:
  "(0::int) \<le> 2 \<and> 0 < MaxWorkers (opt example_working) \<and>
   WorkerNumber (opt example_working) = 3 \<and>
   EvGoWorker 2 \<in> set (trace example_working) \<and>
   (2::int) mod MaxWorkers (opt example_working) = 0 \<and>
   process example_env 2 example_msg example_working = Some (Inl (IndexOutOfRange 2 2))"
  by (simp add: process_def lockWorker_def example_working_fields dur_gt_def
      example_msg_def example_opt_def)

lemma slot_held_snoc_lock: "slot_held i (tr @ [EvLock i b]) = b"
  by (simp add: slot_held_def)

lemma slot_held_snoc_failed: "slot_held i (tr @ [EvLock i False, LogLockFailed e]) = False"
  by (simp add: slot_held_def)

lemma lockWorker_loop_busy:
  "lockWorker_loop i (map LockBusy ws @ rs) p =
     lockWorker_loop i rs
       (p\<lparr>trace := trace p @ concat (map (\<lambda>w. [EvLock i False, EvWait i lockTimeout w]) ws)\<rparr>)"
proof (induction ws arbitrary: p)
  case Nil
  show ?case by simp
next
  case (Cons w ws)
  show ?case by (simp add: Cons.IH emit_def)
qed


text \<open>
  C6, as the code has it. While the lock service answers busy, \<open>lockWorker\<close> waits for a
  wake token or for 1234 ms and asks again; it does not return as long as the answer is
  busy. When the service grants the lock, \<open>lockWorker\<close> returns with the lock held. When
  the service answers with an error, the error is logged and \<open>lockWorker\<close> returns at
  once: it asks no more and the lock is not held.
\<close>

theorem lockWorker_error_returns:
  assumes "0 \<le> wid" and "wid < int (length (workerChans p))" and "wid < int (length (workerLocks p))"
  shows "(\<exists>p'. lockWorker wid (map LockBusy ws @ LockFailed e # rest) p = Some (Inr p') \<and>
            new_events p p' =
              concat (map (\<lambda>w. [EvLock (nat wid) False, EvWait (nat wid) lockTimeout w]) ws)
                @ [EvLock (nat wid) False, LogLockFailed e] \<and>
            \<not> slot_held (nat wid) (trace p')) \<and>
         (\<exists>p'. lockWorker wid (map LockBusy ws @ LockAcquired # rest) p = Some (Inr p') \<and>
            new_events p p' =
              concat (map (\<lambda>w. [EvLock (nat wid) False, EvWait (nat wid) lockTimeout w]) ws)
                @ [EvLock (nat wid) True] \<and>
            slot_held (nat wid) (trace p')) \<and>
         lockWorker wid (map LockBusy ws) p = None \<and>
         sint lockTimeout = 1234 * sint Millisecond"
proof -
  define W where "W = concat (map (\<lambda>w. [EvLock (nat wid) False, EvWait (nat wid) lockTimeout w]) ws)"
  have r: "lockWorker wid rs p = map_option Inr (lockWorker_loop (nat wid) rs p)" for rs
    using assms by (simp add: lockWorker_def)
  have 1: "lockWorker_loop (nat wid) (map LockBusy ws @ LockFailed e # rest) p =
        Some (p\<lparr>trace := trace p @ W @ [EvLock (nat wid) False, LogLockFailed e]\<rparr>)"
    by (simp add: lockWorker_loop_busy emit_def W_def)
  have 2: "lockWorker_loop (nat wid) (map LockBusy ws @ LockAcquired # rest) p =
        Some (p\<lparr>trace := trace p @ W @ [EvLock (nat wid) True]\<rparr>)"
    by (simp add: lockWorker_loop_busy emit_def W_def)
  have 3: "lockWorker_loop (nat wid) (map LockBusy ws) p = None"
    using lockWorker_loop_busy [of "nat wid" ws "[]" p] by simp
  have h1: "\<not> slot_held (nat wid) (trace p @ W @ [EvLock (nat wid) False, LogLockFailed e])"
    using slot_held_snoc_failed [of "nat wid" "trace p @ W" e] by simp
  have h2: "slot_held (nat wid) (trace p @ W @ [EvLock (nat wid) True])"
    using slot_held_snoc_lock [of "nat wid" "trace p @ W" True] by simp
  have t: "sint lockTimeout = 1234 * sint Millisecond"
    by (simp add: lockTimeout_def Millisecond_def)
  show ?thesis
    unfolding W_def [symmetric]
    using h1 h2 t by (simp add: r 1 2 3 new_events_def)
qed

theorem lockWorker_error_returns_witness:
  "(0::int) \<le> 0 \<and> 0 < int (length (workerChans example_working)) \<and>
   0 < int (length (workerLocks example_working)) \<and>
   (\<exists>p'. lockWorker 0 [LockBusy TimedOut, LockFailed lock_down, LockAcquired] example_working
            = Some (Inr p') \<and>
      new_events example_working p' =
        [EvLock 0 False, EvWait 0 lockTimeout TimedOut, EvLock 0 False, LogLockFailed lock_down] \<and>
      \<not> slot_held 0 (trace p')) \<and>
   (\<exists>p'. lockWorker 0 [LockBusy TimedOut, LockAcquired] example_working = Some (Inr p') \<and>
      new_events example_working p' =
        [EvLock 0 False, EvWait 0 lockTimeout TimedOut, EvLock 0 True] \<and>
      slot_held 0 (trace p'))"
  using lockWorker_error_returns [of 0 example_working "[TimedOut]" lock_down "[LockAcquired]"]
    lockWorker_error_returns [of 0 example_working "[TimedOut]" lock_down "[]"]
  by (simp add: example_working_fields)


text \<open>
  The claim C6 says that after an error of the lock service \<open>lockWorker\<close> continues to
  poll and returns only once the lock is held. Here the service fails once and would grant
  the lock at the next attempt; \<open>lockWorker\<close> has returned after the first, without the
  lock.
\<close>

theorem lockWorker_error_counterexample:
  "lockWorker 0 [LockFailed lock_down, LockAcquired] example_working =
     Some (Inr (emit (LogLockFailed lock_down) (emit (EvLock 0 False) example_working))) \<and>
   new_events example_working (emit (LogLockFailed lock_down) (emit (EvLock 0 False) example_working))
     = [EvLock 0 False, LogLockFailed lock_down] \<and>
   \<not> slot_held 0 (trace (emit (LogLockFailed lock_down) (emit (EvLock 0 False) example_working)))"
  by (simp add: lockWorker_def example_working_fields emit_def new_events_def slot_held_def)


section \<open>The configuration roulette: results\<close>

lemma sint_succ_32:
  fixes a b :: "32 word"
  assumes "sint a < sint b"
  shows "sint (a + 1) = sint a + 1"
proof -
  have "sint b < 2 ^ 31" using sint_lt [of b] by simp
  moreover have "- (2 ^ 31) \<le> sint a" using sint_ge [of a] by simp
  ultimately have "signed_take_bit 31 (sint a + 1) = sint a + 1"
    using assms by (simp add: signed_take_bit_int_eq_self)
  then show ?thesis by (simp add: sint_word_add)
qed

lemma sint_add5_32:
  fixes a b :: "32 word"
  assumes "sint a + 5 \<le> sint b"
  shows "sint (a + 5) = sint a + 5"
proof -
  have "sint b < 2 ^ 31" using sint_lt [of b] by simp
  moreover have "- (2 ^ 31) \<le> sint a" using sint_ge [of a] by simp
  ultimately have "signed_take_bit 31 (sint a + 5) = sint a + 5"
    using assms by (simp add: signed_take_bit_int_eq_self)
  then show ?thesis by (simp add: sint_word_add)
qed

lemma Select_fetcher:
  "NumFetcher (fst (Select free1 free2 r cfg queueEmpty)) =
     (if free2 \<and> sint (NumFetcher cfg) < sint (MaxNumFetcher (ropt r))
      then NumFetcher cfg + 1 else NumFetcher cfg)"
  by (simp add: Select_def incrementConfig_def withMoreFetchers_def withMoreWorkers_def Let_def)

lemma Select_worker:
  "NumWorker (fst (Select free1 free2 r cfg queueEmpty)) =
     (if free1 \<and> \<not> queueEmpty then NumWorker cfg + 5 else NumWorker cfg)"
  by (simp add: Select_def incrementConfig_def withMoreFetchers_def withMoreWorkers_def Let_def)


text \<open>
  C2, as the code has it. \<open>Select\<close> keeps the number of fetchers within its bounds when
  the current configuration has it there: \<open>withMoreFetchers\<close> compares with
  \<open>MaxNumFetcher\<close> before it adds one. The number of workers is not compared with
  anything: it is the current number plus 5 (in 32 bits) when resources are free and the
  queue is not empty, and unchanged otherwise. So it stays within its bounds only when it
  was there and the step of 5 still fits below the maximum.
\<close>

theorem Select_bounds:
  assumes "fetcher_in_bounds (ropt r) cfg"
  shows "fetcher_in_bounds (ropt r) (fst (Select free1 free2 r cfg queueEmpty)) \<and>
         NumWorker (fst (Select free1 free2 r cfg queueEmpty)) =
           (if free1 \<and> \<not> queueEmpty then NumWorker cfg + 5 else NumWorker cfg) \<and>
         (worker_in_bounds (ropt r) cfg \<and>
          (free1 \<and> \<not> queueEmpty \<longrightarrow> sint (NumWorker cfg) + 5 \<le> sint (MaxNumWorker (ropt r)))
            \<longrightarrow> worker_in_bounds (ropt r) (fst (Select free1 free2 r cfg queueEmpty)))"
proof (intro conjI impI)
  show "fetcher_in_bounds (ropt r) (fst (Select free1 free2 r cfg queueEmpty))"
    using assms sint_succ_32 [of "NumFetcher cfg" "MaxNumFetcher (ropt r)"]
    by (auto simp: fetcher_in_bounds_def Select_fetcher)
next
  show "NumWorker (fst (Select free1 free2 r cfg queueEmpty)) =
           (if free1 \<and> \<not> queueEmpty then NumWorker cfg + 5 else NumWorker cfg)"
    by (rule Select_worker)
next
  assume a: "worker_in_bounds (ropt r) cfg \<and>
          (free1 \<and> \<not> queueEmpty \<longrightarrow> sint (NumWorker cfg) + 5 \<le> sint (MaxNumWorker (ropt r)))"
  then show "worker_in_bounds (ropt r) (fst (Select free1 free2 r cfg queueEmpty))"
    using sint_add5_32 [of "NumWorker cfg" "MaxNumWorker (ropt r)"]
    by (auto simp: worker_in_bounds_def Select_worker)
qed

theorem Select_bounds_witness:
  "fetcher_in_bounds (ropt example_roulette) \<lparr>NumFetcher = 4, NumWorker = 2, NumSelected = 0\<rparr> \<and>
   fetcher_in_bounds (ropt example_roulette)
     (fst (Select True True example_roulette \<lparr>NumFetcher = 4, NumWorker = 2, NumSelected = 0\<rparr> False)) \<and>
   NumFetcher (fst (Select True True example_roulette \<lparr>NumFetcher = 4, NumWorker = 2, NumSelected = 0\<rparr> False)) = 4 \<and>
   NumWorker (fst (Select True True example_roulette \<lparr>NumFetcher = 4, NumWorker = 2, NumSelected = 0\<rparr> False)) = 7 \<and>
   worker_in_bounds (ropt example_roulette)
     (fst (Select True True example_roulette \<lparr>NumFetcher = 4, NumWorker = 2, NumSelected = 0\<rparr> False))"
  using Select_bounds [where r = example_roulette
      and cfg = "\<lparr>NumFetcher = 4, NumWorker = 2, NumSelected = 0\<rparr>"
      and ?free1.0 = True and ?free2.0 = True and queueEmpty = False]
  by (simp add: example_roulette_def example_qopt_def fetcher_in_bounds_def worker_in_bounds_def
      Select_fetcher Select_worker)


text \<open>
  The claim C2 says that for every current configuration the one returned is within the
  bounds, and that the number of workers never exceeds its maximum after the step of 5.
  With the maximum at 10 and the current number at 10, \<open>Select\<close> returns 15 workers. And a
  current configuration that is outside the bounds is not brought back: with 9 fetchers
  where 4 are the maximum, \<open>Select\<close> returns 9 fetchers.
\<close>

theorem Select_exceeds_max_counterexample:
  "worker_in_bounds (ropt example_roulette) example_cfg \<and>
   fetcher_in_bounds (ropt example_roulette) example_cfg \<and>
   fst (Select True True example_roulette example_cfg False)
     = \<lparr>NumFetcher = 2, NumWorker = 15, NumSelected = 0\<rparr> \<and>
   sint (MaxNumWorker (ropt example_roulette)) = 10 \<and>
   \<not> worker_in_bounds (ropt example_roulette) (fst (Select True True example_roulette example_cfg False)) \<and>
   fst (Select True True example_roulette \<lparr>NumFetcher = 9, NumWorker = 1, NumSelected = 0\<rparr> True)
     = \<lparr>NumFetcher = 9, NumWorker = 1, NumSelected = 0\<rparr> \<and>
   sint (MaxNumFetcher (ropt example_roulette)) = 4 \<and>
   \<not> fetcher_in_bounds (ropt example_roulette)
       (fst (Select True True example_roulette \<lparr>NumFetcher = 9, NumWorker = 1, NumSelected = 0\<rparr> True))"
  by (simp add: Select_def incrementConfig_def withMoreFetchers_def withMoreWorkers_def Let_def
      worker_in_bounds_def fetcher_in_bounds_def example_qopt_def example_roulette_def
      example_cfg_def)


section \<open>Release delay: results\<close>






section \<open>ProcessAll: results\<close>













end
